theory Spec2Isabelle
  imports Complex_Main "HOL-Library.AList"
begin

section \<open>Pipeline Guardian: profile store, rules, dispatch and scan loop\<close>

text \<open>
  A shallow embedding of the parts of the Pipeline Guardian plugin that its design
  document describes: the profile store with its JSON import and export, the LOD
  polygon-reduction rule with its batch repair, the UV-overlap rule, the analyzer
  dispatch of the asset scanner and the cancellable evaluation loop of the window.

  Conventions of the embedding.
  \<^item> \<open>float\<close> and \<open>double\<close> values are real numbers. A float literal that is not a
    binary fraction stands for the float32 number it denotes (\<open>Float_0_8\<close> for \<open>0.8f\<close>).
    Comparisons, \<open>Min\<close>, \<open>Max\<close> and \<open>Clamp\<close> are exact on floats; the rounding of
    sums, products, quotients and powers is not modelled, so that a general statement
    about such a result is a statement about the unrounded value. The evaluations
    below are at inputs on which the float computation yields the same values. Where
    the C++ divides by a zero that HOL would turn into \<open>0\<close>, the IEEE result (an
    infinity or a NaN) is written out as a branch.
  \<^item> \<open>FName\<close> and \<open>FString\<close> are strings compared exactly (the engine compares names
    and map keys without regard to case). \<open>NAME_None\<close> is the name \<open>None\<close>.
  \<^item> \<open>TMap<FString, FString>\<close> and the field table of a JSON object are association
    lists in insertion order; \<open>Add\<close> is \<open>AList.update\<close> (replace in place, else append).
  \<^item> \<open>FString::Printf\<close> results are kept as lists of pieces (literal text, a \<open>%d\<close>, a
    \<open>%.1f\<close>, a \<open>%.1f\<close> of an infinity or a NaN), \<open>FText::Format\<close> results as
    the localisation key with its arguments, so that no number formatting is invented.
  \<^item> \<open>FCString::Atof\<close> belongs to the C runtime and is a parameter \<open>atof\<close>.
  \<^item> Log output and the progress texts that a later status text overwrites are not
    modelled.
\<close>

subsection \<open>Results\<close>

text \<open>\<open>EAssetIssueSeverity\<close> in declaration order; the enum is a \<open>uint8\<close>, so that
  \<open>Critical\<close> is 0 and \<open>Info\<close> is 3, and \<open>>\<close> on it compares these numbers.\<close>

datatype EAssetIssueSeverity = Critical | Error | Warning | Info

fun severity_value :: "EAssetIssueSeverity \<Rightarrow> nat" where
  "severity_value Critical = 0"
| "severity_value Error = 1"
| "severity_value Warning = 2"
| "severity_value Info = 3"

datatype fpiece = Lit string | Dec int | Flt1 real | NonFinite1

type_synonym FString = "fpiece list"

datatype FText =
    TextFromString FString
  | TextFromName string
  | TextAsNumber int
  | TextFormat string "FText list"

datatype FixActionDelegate =
    FixAllLODReductionsBound string "int list" real
  | OptimizeMaterialSlotsBound string "int list"

record FAssetAnalysisResult =
  ResAsset :: string
  Severity :: EAssetIssueSeverity
  ResRuleID :: string
  Description :: "FText option"
  FilePath :: "FText option"
  FixAction :: "FixActionDelegate option"

subsection \<open>Profile store\<close>

type_synonym FName = string

definition NAME_None :: FName where
  "NAME_None = ''None''"

record FPipelineGuardianRuleConfig =
  RuleID :: FName
  bEnabled :: bool
  Parameters :: "(string \<times> string) list"

text \<open>The two constructors of the rule configuration.\<close>

definition DefaultRuleConfig :: FPipelineGuardianRuleConfig where
  "DefaultRuleConfig = \<lparr>RuleID = NAME_None, bEnabled = True, Parameters = []\<rparr>"

definition MakeRuleConfig :: "FName \<Rightarrow> bool \<Rightarrow> FPipelineGuardianRuleConfig" where
  "MakeRuleConfig rid en = \<lparr>RuleID = rid, bEnabled = en, Parameters = []\<rparr>"

definition AddParam :: "string \<Rightarrow> string \<Rightarrow> FPipelineGuardianRuleConfig \<Rightarrow> FPipelineGuardianRuleConfig" where
  "AddParam k v c = c\<lparr>Parameters := AList.update k v (Parameters c)\<rparr>"

record UPipelineGuardianProfile =
  ProfileName :: string
  ProfileDescription :: string
  Version :: int
  RuleConfigs :: "FPipelineGuardianRuleConfig list"

definition GetRuleConfigPtr :: "UPipelineGuardianProfile \<Rightarrow> FName \<Rightarrow> FPipelineGuardianRuleConfig option" where
  "GetRuleConfigPtr P rid = find (\<lambda>c. RuleID c = rid) (RuleConfigs P)"


text \<open>\<open>SetRuleConfig\<close>: overwrite the first configuration with the same rule id, or
  append when there is none.\<close>

fun SetRuleConfigIn :: "FPipelineGuardianRuleConfig \<Rightarrow> FPipelineGuardianRuleConfig list
    \<Rightarrow> FPipelineGuardianRuleConfig list" where
  "SetRuleConfigIn rc [] = [rc]"
| "SetRuleConfigIn rc (c # cs) =
     (if RuleID c = RuleID rc then rc # cs else c # SetRuleConfigIn rc cs)"

definition SetRuleConfig :: "FPipelineGuardianRuleConfig \<Rightarrow> UPipelineGuardianProfile \<Rightarrow> UPipelineGuardianProfile" where
  "SetRuleConfig rc P = P\<lparr>RuleConfigs := SetRuleConfigIn rc (RuleConfigs P)\<rparr>"

definition IsRuleEnabled :: "UPipelineGuardianProfile \<Rightarrow> FName \<Rightarrow> bool" where
  "IsRuleEnabled P rid =
     (case GetRuleConfigPtr P rid of Some c \<Rightarrow> bEnabled c | None \<Rightarrow> False)"

definition GetRuleParameter :: "UPipelineGuardianProfile \<Rightarrow> FName \<Rightarrow> string \<Rightarrow> string \<Rightarrow> string" where
  "GetRuleParameter P rid name dflt =
     (case GetRuleConfigPtr P rid of
        None \<Rightarrow> dflt
      | Some c \<Rightarrow> (case map_of (Parameters c) name of Some v \<Rightarrow> v | None \<Rightarrow> dflt))"

definition InitializeDefaultRules :: "UPipelineGuardianProfile \<Rightarrow> UPipelineGuardianProfile" where
  "InitializeDefaultRules P0 =
    (let SMNamingRule = AddParam ''NamingPattern'' ''SM_*'' (MakeRuleConfig ''SM_Naming'' True);
         P1 = SetRuleConfig SMNamingRule P0;
         SMLODMissingRule = MakeRuleConfig ''SM_LODMissing'' True;
         P2 = SetRuleConfig SMLODMissingRule P1;
         SMLODPolyReductionRule =
           AddParam ''ErrorThreshold'' ''10.0''
          (AddParam ''WarningThreshold'' ''20.0''
          (AddParam ''MinReductionPercentage'' ''30.0''
          (MakeRuleConfig ''SM_LODPolyReduction'' True)));
         P3 = SetRuleConfig SMLODPolyReductionRule P2;
         SMUVOverlappingRule =
           AddParam ''AllowAutoFix'' ''true''
          (AddParam ''LightmapErrorThreshold'' ''8.0''
          (AddParam ''LightmapWarningThreshold'' ''2.0''
          (AddParam ''TextureErrorThreshold'' ''15.0''
          (AddParam ''TextureWarningThreshold'' ''5.0''
          (AddParam ''LightmapUVTolerance'' ''0.0005''
          (AddParam ''TextureUVTolerance'' ''0.001''
          (AddParam ''CheckUVChannel3'' ''false''
          (AddParam ''CheckUVChannel2'' ''false''
          (AddParam ''CheckUVChannel1'' ''true''
          (AddParam ''CheckUVChannel0'' ''true''
          (AddParam ''Severity'' ''Warning''
          (MakeRuleConfig ''SM_UVOverlapping'' True))))))))))));
         P4 = SetRuleConfig SMUVOverlappingRule P3;
         SMTriangleCountRule =
           AddParam ''PerformanceLODReductionTarget'' ''60.0''
          (AddParam ''AllowAutoFix'' ''true''
          (AddParam ''ErrorThreshold'' ''100000''
          (AddParam ''WarningThreshold'' ''50000''
          (AddParam ''Severity'' ''Warning''
          (MakeRuleConfig ''SM_TriangleCount'' True)))))
     in SetRuleConfig SMTriangleCountRule P4)"

text \<open>The constructor of the profile.\<close>

definition NewProfile :: UPipelineGuardianProfile where
  "NewProfile = InitializeDefaultRules
     \<lparr>ProfileName = ''Default Profile'',
      ProfileDescription = ''Default Pipeline Guardian profile'',
      Version = 1, RuleConfigs = []\<rparr>"

subsection \<open>The profile document\<close>

text \<open>The JSON object model of the engine. \<open>ExportToJSON\<close> builds such a tree and hands
  it to the engine's serializer; \<open>ImportFromJSON\<close> receives the tree from the engine's
  reader. The text form and both library routines are outside the plugin, so that the
  document is the tree here and a text that does not parse to an object is \<open>None\<close>.
  The accessors below succeed on a value of the requested kind; the library's
  conversions between kinds (a number read as a string) are not modelled.\<close>

datatype json =
    JNull
  | JBool bool
  | JNumber int
  | JString string
  | JArray "json list"
  | JObject "(string \<times> json) list"

definition HasField :: "(string \<times> json) list \<Rightarrow> string \<Rightarrow> bool" where
  "HasField obj k = (map_of obj k \<noteq> None)"

definition GetStringField :: "(string \<times> json) list \<Rightarrow> string \<Rightarrow> string" where
  "GetStringField obj k = (case map_of obj k of Some (JString s) \<Rightarrow> s | _ \<Rightarrow> [])"

definition GetIntegerField :: "(string \<times> json) list \<Rightarrow> string \<Rightarrow> int" where
  "GetIntegerField obj k = (case map_of obj k of Some (JNumber n) \<Rightarrow> n | _ \<Rightarrow> 0)"

definition TryGetArrayField :: "(string \<times> json) list \<Rightarrow> string \<Rightarrow> json list option" where
  "TryGetArrayField obj k = (case map_of obj k of Some (JArray vs) \<Rightarrow> Some vs | _ \<Rightarrow> None)"

definition TryGetObjectField :: "(string \<times> json) list \<Rightarrow> string \<Rightarrow> (string \<times> json) list option" where
  "TryGetObjectField obj k = (case map_of obj k of Some (JObject fs) \<Rightarrow> Some fs | _ \<Rightarrow> None)"

definition TryGetStringField :: "(string \<times> json) list \<Rightarrow> string \<Rightarrow> string option" where
  "TryGetStringField obj k = (case map_of obj k of Some (JString s) \<Rightarrow> Some s | _ \<Rightarrow> None)"

definition TryGetBoolField :: "(string \<times> json) list \<Rightarrow> string \<Rightarrow> bool option" where
  "TryGetBoolField obj k = (case map_of obj k of Some (JBool b) \<Rightarrow> Some b | _ \<Rightarrow> None)"

definition TryGetObject :: "json \<Rightarrow> (string \<times> json) list option" where
  "TryGetObject v = (case v of JObject fs \<Rightarrow> Some fs | _ \<Rightarrow> None)"

definition TryGetString :: "json \<Rightarrow> string option" where
  "TryGetString v = (case v of JString s \<Rightarrow> Some s | _ \<Rightarrow> None)"

text \<open>\<open>ExportToJSON\<close>, the loop over the parameters of one rule first.\<close>

definition ExportParameters :: "(string \<times> string) list \<Rightarrow> (string \<times> json) list" where
  "ExportParameters ps = fold (\<lambda>(k, v) obj. AList.update k (JString v) obj) ps []"

definition ExportRule :: "FPipelineGuardianRuleConfig \<Rightarrow> json" where
  "ExportRule c = JObject
     (AList.update ''Parameters'' (JObject (ExportParameters (Parameters c)))
     (AList.update ''Enabled'' (JBool (bEnabled c))
     (AList.update ''RuleID'' (JString (RuleID c)) [])))"

definition ExportToJSON :: "UPipelineGuardianProfile \<Rightarrow> json" where
  "ExportToJSON P = JObject
     (AList.update ''Rules'' (JArray (map ExportRule (RuleConfigs P)))
     (AList.update ''Version'' (JNumber (Version P))
     (AList.update ''Description'' (JString (ProfileDescription P))
     (AList.update ''ProfileName'' (JString (ProfileName P)) []))))"

text \<open>\<open>ImportFromJSON\<close>: the inner loop over the parameters, the body of the loop over
  the rules, that loop, and the function.\<close>

definition ImportParameters :: "(string \<times> json) list \<Rightarrow> (string \<times> string) list \<Rightarrow> (string \<times> string) list" where
  "ImportParameters fs ps0 =
     fold (\<lambda>(k, v) ps. case TryGetString v of Some s \<Rightarrow> AList.update k s ps | None \<Rightarrow> ps) fs ps0"

definition ImportRuleObject :: "(string \<times> json) list \<Rightarrow> FPipelineGuardianRuleConfig" where
  "ImportRuleObject obj =
    (let c0 = DefaultRuleConfig;
         c1 = (case TryGetStringField obj ''RuleID'' of
                 Some s \<Rightarrow> c0\<lparr>RuleID := s\<rparr> | None \<Rightarrow> c0);
         c2 = (case TryGetBoolField obj ''Enabled'' of
                 Some b \<Rightarrow> c1\<lparr>bEnabled := b\<rparr> | None \<Rightarrow> c1)
     in (case TryGetObjectField obj ''Parameters'' of
           Some fs \<Rightarrow> c2\<lparr>Parameters := ImportParameters fs (Parameters c2)\<rparr>
         | None \<Rightarrow> c2))"

fun ImportRules :: "json list \<Rightarrow> FPipelineGuardianRuleConfig list \<Rightarrow> FPipelineGuardianRuleConfig list" where
  "ImportRules [] acc = acc"
| "ImportRules (v # vs) acc =
     (case TryGetObject v of
        Some obj \<Rightarrow> ImportRules vs (acc @ [ImportRuleObject obj])
      | None \<Rightarrow> ImportRules vs acc)"

definition ImportFromJSON :: "json option \<Rightarrow> UPipelineGuardianProfile \<Rightarrow> bool \<times> UPipelineGuardianProfile" where
  "ImportFromJSON doc P =
    (case doc of
       Some (JObject RootObject) \<Rightarrow>
         (let P1 = (if HasField RootObject ''ProfileName''
                    then P\<lparr>ProfileName := GetStringField RootObject ''ProfileName''\<rparr> else P);
              P2 = (if HasField RootObject ''Description''
                    then P1\<lparr>ProfileDescription := GetStringField RootObject ''Description''\<rparr> else P1);
              P3 = (if HasField RootObject ''Version''
                    then P2\<lparr>Version := GetIntegerField RootObject ''Version''\<rparr> else P2);
              P4 = P3\<lparr>RuleConfigs := []\<rparr>
          in (case TryGetArrayField RootObject ''Rules'' of
                Some vs \<Rightarrow> (True, P4\<lparr>RuleConfigs := ImportRules vs (RuleConfigs P4)\<rparr>)
              | None \<Rightarrow> (True, P4)))
     | _ \<Rightarrow> (False, P))"

subsection \<open>Assets and the engine\<close>

text \<open>The class hierarchy of the engine: a class with its chain of super classes, which
  ends at a class without a super class.\<close>

datatype UClass = UClass (ClassName: string) (GetSuperClass: "UClass option")

record FStaticMeshLODResources =
  NumTriangles :: int
  NumVertices :: int

datatype EMeshFeatureImportance = Off | Lowest | Low | Normal | High | Highest

record FMeshReductionSettings =
  PercentTriangles :: real
  PercentVertices :: real
  MaxDeviation :: real
  PixelError :: real
  WeldingThreshold :: real
  HardAngleThreshold :: real
  BaseLODModel :: int
  SilhouetteImportance :: EMeshFeatureImportance
  TextureImportance :: EMeshFeatureImportance
  ShadingImportance :: EMeshFeatureImportance

text \<open>The mesh description of LOD 0 as the UV rule reads it: whether the UV attribute is
  valid, its number of channels, the triangles with their vertex instances, and the
  UV coordinate of a vertex instance in a channel.\<close>

record FMeshDescription =
  UVsValid :: bool
  NumUVChannels :: int
  Triangles :: "(int \<times> int list) list"
  UVGet :: "int \<Rightarrow> int \<Rightarrow> real \<times> real"

record UStaticMesh =
  MeshName :: string
  MeshPackageName :: string
  RenderData :: "FStaticMeshLODResources list option"
  SourceModels :: "FMeshReductionSettings list"
  MeshDescription0 :: "FMeshDescription option"
  LightMapCoordinateIndex :: int
  StaticMaterials :: "string option list"

text \<open>A loaded object: its class, and the static mesh that \<open>Cast<UStaticMesh>\<close> yields
  (\<open>None\<close> when the object is not a static mesh).\<close>

record UObject =
  GetClass :: UClass
  CastStaticMesh :: "UStaticMesh option"

text \<open>What the rules take from outside the plugin: the C runtime's \<open>atof\<close>, whether
  the mesh-reduction module offers a static-mesh reduction interface, and the engine's
  \<open>UStaticMesh::Build\<close>.\<close>

record Engine =
  Atof :: "string \<Rightarrow> real"
  HasMeshReduction :: bool
  Build :: "UStaticMesh \<Rightarrow> UStaticMesh"

text \<open>The settings object of the plugin, as far as the modelled code reads it: what
  \<open>GetActiveProfile\<close> returns, and the fields of the material-slot rule. A static mesh
  has one entry per material slot, \<open>None\<close> for a slot without a material.\<close>

record UPipelineGuardianSettings =
  GetActiveProfile :: "UPipelineGuardianProfile option"
  bEnableStaticMeshMaterialSlotRule :: bool
  MaterialSlotIssueSeverity :: EAssetIssueSeverity
  MaterialSlotWarningThreshold :: int
  MaterialSlotErrorThreshold :: int
  bAllowMaterialSlotAutoFix :: bool

text \<open>The float literals of the modelled sources that are not binary fractions: the
  float32 numbers nearest to 0.0001, 0.0005, 0.001, 0.002, 0.01 and 0.8.\<close>

definition Float_0_0001 :: real where
  "Float_0_0001 = 13743895 / 2 ^ 37"

definition Float_0_0005 :: real where
  "Float_0_0005 = 8589935 / 2 ^ 34"

definition Float_0_001 :: real where
  "Float_0_001 = 8589935 / 2 ^ 33"

definition Float_0_002 :: real where
  "Float_0_002 = 8589935 / 2 ^ 32"

definition Float_0_01 :: real where
  "Float_0_01 = 5368709 / 2 ^ 29"

definition Float_0_8 :: real where
  "Float_0_8 = 13421773 / 2 ^ 24"

definition RoundToInt :: "real \<Rightarrow> int" where
  "RoundToInt x = \<lfloor>x + 1 / 2\<rfloor>"

definition Clamp :: "real \<Rightarrow> real \<Rightarrow> real \<Rightarrow> real" where
  "Clamp x lo hi = (if x < lo then lo else if x < hi then x else hi)"

definition AddUnique :: "'a \<Rightarrow> 'a list \<Rightarrow> 'a list" where
  "AddUnique x xs = (if x \<in> set xs then xs else xs @ [x])"

subsection \<open>The LOD polygon-reduction rule: Check\<close>

definition LODPolyReduction_RuleID :: FName where
  "LODPolyReduction_RuleID = ''SM_LODPolyReduction''"

definition GetLODTriangleCount :: "UStaticMesh \<Rightarrow> int \<Rightarrow> int" where
  "GetLODTriangleCount m i =
     (case RenderData m of
        None \<Rightarrow> 0
      | Some lods \<Rightarrow>
          if 0 \<le> i \<and> i < int (length lods) then NumTriangles (lods ! nat i) else 0)"

definition CalculateReductionPercentage :: "int \<Rightarrow> int \<Rightarrow> real" where
  "CalculateReductionPercentage HigherLODTriangles LowerLODTriangles =
     (if HigherLODTriangles = 0 then 0
      else real_of_int (HigherLODTriangles - LowerLODTriangles)
             / real_of_int HigherLODTriangles * 100)"

definition CanFixLODReduction :: "Engine \<Rightarrow> UStaticMesh \<Rightarrow> bool" where
  "CanFixLODReduction E m =
     (case RenderData m of
        None \<Rightarrow> False
      | Some [] \<Rightarrow> False
      | Some (BaseLOD # _) \<Rightarrow> if NumVertices BaseLOD = 0 then False else HasMeshReduction E)"

definition GetSeverityForReduction :: "real \<Rightarrow> real \<Rightarrow> real \<Rightarrow> real \<Rightarrow> EAssetIssueSeverity" where
  "GetSeverityForReduction ActualReduction MinReduction WarningThreshold ErrorThreshold =
     (if ActualReduction < ErrorThreshold then Error
      else if ActualReduction < WarningThreshold then Warning
      else if ActualReduction < MinReduction then Info
      else Warning)"

text \<open>The state of the loop over the consecutive LOD pairs, and its body for the pair
  \<open>(LODIndex - 1, LODIndex)\<close>. The arrow between the two LOD names in the description
  is written \<open>->\<close> here.\<close>

record LODLoopState =
  ProblematicLODs :: "int list"
  bFoundIssues :: bool
  WorstSeverity :: EAssetIssueSeverity
  IssueDescription :: FString

definition ReductionText :: "real \<Rightarrow> FString" where
  "ReductionText ReductionPercentage =
     (if ReductionPercentage < 0
      then [Lit ''INCREASE of '', Flt1 \<bar>ReductionPercentage\<bar>, Lit ''%'']
      else [Flt1 ReductionPercentage, Lit ''% reduction''])"

definition LODPairStep :: "UStaticMesh \<Rightarrow> real \<Rightarrow> real \<Rightarrow> real \<Rightarrow> int \<Rightarrow> LODLoopState \<Rightarrow> LODLoopState" where
  "LODPairStep m MinReductionPercentage WarningThreshold ErrorThreshold LODIndex s =
    (let PreviousLODTriangles = GetLODTriangleCount m (LODIndex - 1);
         CurrentLODTriangles = GetLODTriangleCount m LODIndex
     in if PreviousLODTriangles = 0 \<or> CurrentLODTriangles = 0 then s
        else
          (let ReductionPercentage =
                 CalculateReductionPercentage PreviousLODTriangles CurrentLODTriangles
           in if ReductionPercentage < MinReductionPercentage
              then
                (let CurrentSeverity = GetSeverityForReduction ReductionPercentage
                       MinReductionPercentage WarningThreshold ErrorThreshold
                 in s\<lparr>ProblematicLODs := AddUnique LODIndex (ProblematicLODs s),
                      bFoundIssues := True,
                      WorstSeverity :=
                        (if severity_value CurrentSeverity > severity_value (WorstSeverity s)
                         then CurrentSeverity else WorstSeverity s),
                      IssueDescription :=
                        (if IssueDescription s \<noteq> [] then IssueDescription s @ [Lit ''; '']
                         else IssueDescription s)
                        @ [Lit ''LOD'', Dec (LODIndex - 1), Lit ''->LOD'', Dec LODIndex, Lit '': '']
                        @ ReductionText ReductionPercentage
                        @ [Lit '' (need '', Flt1 MinReductionPercentage, Lit ''%)'']\<rparr>)
              else s))"

definition LODPairLoop :: "UStaticMesh \<Rightarrow> real \<Rightarrow> real \<Rightarrow> real \<Rightarrow> nat \<Rightarrow> LODLoopState" where
  "LODPairLoop m MinReductionPercentage WarningThreshold ErrorThreshold LODCount =
     fold (\<lambda>i. LODPairStep m MinReductionPercentage WarningThreshold ErrorThreshold (int i))
       [1 ..< LODCount]
       \<lparr>ProblematicLODs = [], bFoundIssues = False, WorstSeverity = Info,
        IssueDescription = []\<rparr>"

text \<open>\<open>Check\<close> of the rule. The asset argument is the result of the cast to a static
  mesh; the result is the returned flag with the output array.\<close>

definition LODPolyReduction_Check :: "Engine \<Rightarrow> UStaticMesh option \<Rightarrow> UPipelineGuardianProfile option
    \<Rightarrow> FAssetAnalysisResult list \<Rightarrow> bool \<times> FAssetAnalysisResult list" where
  "LODPolyReduction_Check E Asset Profile OutResults =
    (case Asset of
       None \<Rightarrow> (False, OutResults)
     | Some m \<Rightarrow>
        (case Profile of
           None \<Rightarrow> (False, OutResults)
         | Some P \<Rightarrow>
            if \<not> IsRuleEnabled P LODPolyReduction_RuleID then (False, OutResults)
            else
             (let MinReductionPercentage = Atof E
                    (GetRuleParameter P LODPolyReduction_RuleID ''MinReductionPercentage'' ''30.0'');
                  WarningThreshold = Atof E
                    (GetRuleParameter P LODPolyReduction_RuleID ''WarningThreshold'' ''20.0'');
                  ErrorThreshold = Atof E
                    (GetRuleParameter P LODPolyReduction_RuleID ''ErrorThreshold'' ''10.0'')
              in (case RenderData m of
                    None \<Rightarrow> (False, OutResults)
                  | Some lods \<Rightarrow>
                     if length lods < 2 then (False, OutResults)
                     else
                      (let s = LODPairLoop m MinReductionPercentage WarningThreshold
                                 ErrorThreshold (length lods)
                       in if bFoundIssues s \<and> length (ProblematicLODs s) > 0
                          then (bFoundIssues s, OutResults @
                            [\<lparr>ResAsset = MeshName m,
                              Severity = WorstSeverity s,
                              ResRuleID = LODPolyReduction_RuleID,
                              Description = Some (TextFormat ''StaticMeshLODPolyReductionComprehensive''
                                [TextFromString [Lit (MeshName m)],
                                 TextAsNumber (int (length (ProblematicLODs s))),
                                 TextFromString (IssueDescription s),
                                 TextAsNumber (RoundToInt MinReductionPercentage)]),
                              FilePath = Some (TextFromString [Lit (MeshPackageName m)]),
                              FixAction =
                                (if CanFixLODReduction E m
                                 then Some (FixAllLODReductionsBound (MeshName m)
                                        (ProblematicLODs s) MinReductionPercentage)
                                 else None)\<rparr>])
                          else (bFoundIssues s, OutResults))))))"

subsection \<open>The UV-overlap rule\<close>

definition UVOverlapping_RuleID :: FName where
  "UVOverlapping_RuleID = ''SM_UVOverlapping''"

record FUVOverlapInfo =
  UVChannel :: int
  OverlappingTriangleCount :: int
  OverlapPercentage :: real
  OverlappingTriangles :: "int list"
  DetailedDescription :: FString

definition NewUVOverlapInfo :: FUVOverlapInfo where
  "NewUVOverlapInfo = \<lparr>UVChannel = 0, OverlappingTriangleCount = 0, OverlapPercentage = 0,
     OverlappingTriangles = [], DetailedDescription = []\<rparr>"

record FTriangleUVBounds =
  MinUV :: "real \<times> real"
  MaxUV :: "real \<times> real"
  TriangleID :: int

definition NewTriangleUVBounds :: FTriangleUVBounds where
  "NewTriangleUVBounds = \<lparr>MinUV = (0, 0), MaxUV = (0, 0), TriangleID = 0\<rparr>"

definition GetArea :: "FTriangleUVBounds \<Rightarrow> real" where
  "GetArea b = (fst (MaxUV b) - fst (MinUV b)) * (snd (MaxUV b) - snd (MinUV b))"

text \<open>The area of the intersection of two boxes, as \<open>Overlaps\<close> computes it, and
  \<open>Overlaps\<close>.\<close>

definition OverlapArea :: "FTriangleUVBounds \<Rightarrow> FTriangleUVBounds \<Rightarrow> real" where
  "OverlapArea b Other =
    (let OverlapWidth = max 0 (min (fst (MaxUV b)) (fst (MaxUV Other))
                                 - max (fst (MinUV b)) (fst (MinUV Other)));
         OverlapHeight = max 0 (min (snd (MaxUV b)) (snd (MaxUV Other))
                                 - max (snd (MinUV b)) (snd (MinUV Other)))
     in OverlapWidth * OverlapHeight)"

definition Overlaps :: "FTriangleUVBounds \<Rightarrow> FTriangleUVBounds \<Rightarrow> real \<Rightarrow> bool" where
  "Overlaps b Other Tolerance =
    (let MinArea = min (GetArea b) (GetArea Other);
         OverlapThreshold = MinArea * Tolerance
     in OverlapArea b Other > OverlapThreshold)"

definition MAX_flt :: real where
  "MAX_flt = 340282346638528859811704183484516925440"

definition GetTriangleUVBounds :: "FMeshDescription option \<Rightarrow> int \<times> int list \<Rightarrow> int \<Rightarrow> FTriangleUVBounds" where
  "GetTriangleUVBounds MeshDescription Triangle Channel =
    (case MeshDescription of
       None \<Rightarrow> NewTriangleUVBounds
     | Some md \<Rightarrow>
        if \<not> UVsValid md \<or> Channel \<ge> NumUVChannels md then NewTriangleUVBounds
        else fold (\<lambda>VertexInstanceID b.
                (let UV = UVGet md VertexInstanceID Channel
                 in b\<lparr>MinUV := (min (fst (MinUV b)) (fst UV), min (snd (MinUV b)) (snd UV)),
                      MaxUV := (max (fst (MaxUV b)) (fst UV), max (snd (MaxUV b)) (snd UV))\<rparr>))
               (snd Triangle)
               \<lparr>MinUV = (MAX_flt, MAX_flt), MaxUV = (- MAX_flt, - MAX_flt),
                TriangleID = fst Triangle\<rparr>)"

definition BuildTriangleUVBounds :: "FMeshDescription option \<Rightarrow> int \<Rightarrow> FTriangleUVBounds list" where
  "BuildTriangleUVBounds MeshDescription Channel =
    (case MeshDescription of
       None \<Rightarrow> []
     | Some md \<Rightarrow>
        if \<not> UVsValid md \<or> Channel \<ge> NumUVChannels md then []
        else filter (\<lambda>b. GetArea b > 0)
               (map (\<lambda>t. GetTriangleUVBounds MeshDescription t Channel) (Triangles md)))"

text \<open>\<open>DetectOverlappingTriangles\<close>: the inner loop over the boxes after box \<open>i\<close>, with
  the flag \<open>bFoundOverlap\<close>, and the outer loop.\<close>

fun DetectInner :: "FTriangleUVBounds \<Rightarrow> FTriangleUVBounds list \<Rightarrow> real \<Rightarrow> bool \<Rightarrow> int list \<Rightarrow> int list" where
  "DetectInner bi [] Tolerance bFoundOverlap Out = Out"
| "DetectInner bi (bj # rest) Tolerance bFoundOverlap Out =
     (if Overlaps bi bj Tolerance
      then DetectInner bi rest Tolerance True
             (AddUnique (TriangleID bj)
                (if \<not> bFoundOverlap then AddUnique (TriangleID bi) Out else Out))
      else DetectInner bi rest Tolerance bFoundOverlap Out)"

fun DetectOuter :: "FTriangleUVBounds list \<Rightarrow> real \<Rightarrow> int list \<Rightarrow> int list" where
  "DetectOuter [] Tolerance Out = Out"
| "DetectOuter (bi # rest) Tolerance Out =
     DetectOuter rest Tolerance (DetectInner bi rest Tolerance False Out)"

definition DetectOverlappingTriangles :: "FTriangleUVBounds list \<Rightarrow> real \<Rightarrow> int list" where
  "DetectOverlappingTriangles TriangleBounds Tolerance = DetectOuter TriangleBounds Tolerance []"

definition BoundSize :: "FTriangleUVBounds \<Rightarrow> real \<times> real" where
  "BoundSize b = (fst (MaxUV b) - fst (MinUV b), snd (MaxUV b) - snd (MinUV b))"

definition SizeSquared :: "real \<times> real \<Rightarrow> real" where
  "SizeSquared v = fst v * fst v + snd v * snd v"

definition SimilarBoundsCount :: "FTriangleUVBounds list \<Rightarrow> nat" where
  "SimilarBoundsCount TriangleBounds =
    (case TriangleBounds of
       [] \<Rightarrow> 0
     | b0 # rest \<Rightarrow>
        length (filter (\<lambda>b. SizeSquared (fst (BoundSize b) - fst (BoundSize b0),
                                          snd (BoundSize b) - snd (BoundSize b0)) < Float_0_0001) rest))"

definition AnalyzeUVChannelOverlaps :: "FMeshDescription option \<Rightarrow> int \<Rightarrow> real \<Rightarrow> FUVOverlapInfo
    \<Rightarrow> bool \<times> FUVOverlapInfo" where
  "AnalyzeUVChannelOverlaps MeshDescription Channel OverlapTolerance OutOverlapInfo =
    (if MeshDescription = None \<or> Channel < 0 then (False, OutOverlapInfo)
     else
      (let TriangleBounds = BuildTriangleUVBounds MeshDescription Channel
       in if length TriangleBounds = 0 then (False, OutOverlapInfo)
          else
           (let FoundOverlapping = DetectOverlappingTriangles TriangleBounds OverlapTolerance
            in if length TriangleBounds > 4
               then
                (let SimilarityRatio = real (SimilarBoundsCount TriangleBounds)
                                         / real (length TriangleBounds)
                 in if SimilarityRatio > Float_0_8
                    then (True, OutOverlapInfo
                           \<lparr>OverlappingTriangleCount :=
                              RoundToInt (SimilarityRatio * real (length TriangleBounds)),
                            OverlapPercentage := SimilarityRatio * 100,
                            DetailedDescription :=
                              [Lit ''UV Channel '', Dec Channel, Lit '': '',
                               Flt1 (SimilarityRatio * 100),
                               Lit ''% of triangles have identical UV bounds - possible unwrapping issue'']\<rparr>)
                    else (False, OutOverlapInfo))
               else (False, OutOverlapInfo))))"

definition IsValidUVChannel :: "FMeshDescription option \<Rightarrow> int \<Rightarrow> bool" where
  "IsValidUVChannel MeshDescription Channel =
    (case MeshDescription of
       None \<Rightarrow> False
     | Some md \<Rightarrow> if Channel < 0 then False else UVsValid md \<and> Channel < NumUVChannels md)"

definition ShouldCheckUVChannel :: "UPipelineGuardianProfile option \<Rightarrow> int \<Rightarrow> bool" where
  "ShouldCheckUVChannel Profile Channel =
    (case Profile of
       None \<Rightarrow> Channel \<ge> 0 \<and> Channel \<le> 1
     | Some P \<Rightarrow>
        if Channel = 0 then GetRuleParameter P UVOverlapping_RuleID ''CheckUVChannel0'' ''true'' = ''true''
        else if Channel = 1 then GetRuleParameter P UVOverlapping_RuleID ''CheckUVChannel1'' ''true'' = ''true''
        else if Channel = 2 then GetRuleParameter P UVOverlapping_RuleID ''CheckUVChannel2'' ''false'' = ''true''
        else if Channel = 3 then GetRuleParameter P UVOverlapping_RuleID ''CheckUVChannel3'' ''false'' = ''true''
        else False)"

definition GetOverlapToleranceForChannel :: "Engine \<Rightarrow> UPipelineGuardianProfile option \<Rightarrow> int \<Rightarrow> real" where
  "GetOverlapToleranceForChannel E Profile Channel =
    (case Profile of
       None \<Rightarrow> if Channel = 0 then Float_0_001
               else if Channel = 1 then Float_0_0005 else Float_0_002
     | Some P \<Rightarrow>
        (let TextureToleranceStr = GetRuleParameter P UVOverlapping_RuleID ''TextureUVTolerance'' ''0.001'';
             LightmapToleranceStr = GetRuleParameter P UVOverlapping_RuleID ''LightmapUVTolerance'' ''0.0005'';
             Tolerance = (if Channel = 1 then Atof E LightmapToleranceStr else Atof E TextureToleranceStr)
         in Clamp Tolerance Float_0_0001 Float_0_01))"

definition GetSeverityForOverlapPercentage :: "Engine \<Rightarrow> UPipelineGuardianProfile option \<Rightarrow> real \<Rightarrow> bool
    \<Rightarrow> EAssetIssueSeverity" where
  "GetSeverityForOverlapPercentage E Profile Percentage bIsLightmapChannel =
    (case Profile of
       None \<Rightarrow>
        if bIsLightmapChannel
        then (if Percentage > 8 then Error else if Percentage > 2 then Warning else Info)
        else (if Percentage > 15 then Error else if Percentage > 5 then Warning else Info)
     | Some P \<Rightarrow>
        if bIsLightmapChannel
        then
         (let WarningThreshold = Atof E (GetRuleParameter P UVOverlapping_RuleID ''LightmapWarningThreshold'' ''2.0'');
              ErrorThreshold = Atof E (GetRuleParameter P UVOverlapping_RuleID ''LightmapErrorThreshold'' ''8.0'')
          in if Percentage > ErrorThreshold then Error
             else if Percentage > WarningThreshold then Warning else Info)
        else
         (let WarningThreshold = Atof E (GetRuleParameter P UVOverlapping_RuleID ''TextureWarningThreshold'' ''5.0'');
              ErrorThreshold = Atof E (GetRuleParameter P UVOverlapping_RuleID ''TextureErrorThreshold'' ''15.0'')
          in if Percentage > ErrorThreshold then Error
             else if Percentage > WarningThreshold then Warning else Info))"

definition DetermineOverlapSeverity :: "Engine \<Rightarrow> FUVOverlapInfo \<Rightarrow> UPipelineGuardianProfile option
    \<Rightarrow> EAssetIssueSeverity" where
  "DetermineOverlapSeverity E OverlapInfo Profile =
    (case Profile of
       None \<Rightarrow> Warning
     | Some P \<Rightarrow> GetSeverityForOverlapPercentage E Profile (OverlapPercentage OverlapInfo) False)"

definition GetUVChannelUsageName :: "int \<Rightarrow> UStaticMesh option \<Rightarrow> FString" where
  "GetUVChannelUsageName Channel StaticMesh =
    (case StaticMesh of
       None \<Rightarrow> [Lit ''UV Channel '', Dec Channel]
     | Some m \<Rightarrow>
        if LightMapCoordinateIndex m = Channel
        then [Lit ''UV Channel '', Dec Channel, Lit '' (Lightmap)'']
        else if Channel = 0 then [Lit ''UV Channel 0 (Primary Texture)'']
        else if Channel = 1 then [Lit ''UV Channel 1 (Secondary Texture)'']
        else [Lit ''UV Channel '', Dec Channel])"

definition GenerateOverlapDescription :: "FUVOverlapInfo \<Rightarrow> UStaticMesh option \<Rightarrow> FString" where
  "GenerateOverlapDescription OverlapInfo StaticMesh =
     [Lit ''UV Overlaps detected in ''] @ GetUVChannelUsageName (UVChannel OverlapInfo) StaticMesh
     @ [Lit '': '', Dec (OverlappingTriangleCount OverlapInfo), Lit '' triangles ('',
        Flt1 (OverlapPercentage OverlapInfo),
        Lit ''% of surface area) have overlapping UV coordinates. This may cause texture artifacts and lightmap baking issues.'']"

text \<open>\<open>AnalyzeStaticMeshUVOverlaps\<close>: the body of the loop over the eight channels, and
  the function.\<close>

definition AnalyzeChannel :: "Engine \<Rightarrow> FMeshDescription option \<Rightarrow> UPipelineGuardianProfile option
    \<Rightarrow> int \<Rightarrow> FUVOverlapInfo list \<Rightarrow> FUVOverlapInfo list" where
  "AnalyzeChannel E MeshDescription Profile Channel OutOverlaps =
    (if \<not> ShouldCheckUVChannel Profile Channel then OutOverlaps
     else if \<not> IsValidUVChannel MeshDescription Channel then OutOverlaps
     else
      (let OverlapInfo = NewUVOverlapInfo\<lparr>UVChannel := Channel\<rparr>;
           OverlapTolerance = GetOverlapToleranceForChannel E Profile Channel;
           r = AnalyzeUVChannelOverlaps MeshDescription Channel OverlapTolerance OverlapInfo
       in if fst r then OutOverlaps @ [snd r] else OutOverlaps))"

definition AnalyzeStaticMeshUVOverlaps :: "Engine \<Rightarrow> UStaticMesh option \<Rightarrow> UPipelineGuardianProfile option
    \<Rightarrow> FUVOverlapInfo list \<Rightarrow> bool \<times> FUVOverlapInfo list" where
  "AnalyzeStaticMeshUVOverlaps E StaticMesh Profile OutOverlaps =
    (case StaticMesh of
       None \<Rightarrow> (False, OutOverlaps)
     | Some m \<Rightarrow>
        if Profile = None then (False, OutOverlaps)
        else if MeshDescription0 m = None then (False, OutOverlaps)
        else (True, fold (\<lambda>c. AnalyzeChannel E (MeshDescription0 m) Profile (int c))
                      [0 ..< 8] OutOverlaps))"

definition UVOverlapResult :: "Engine \<Rightarrow> UStaticMesh \<Rightarrow> UPipelineGuardianProfile option \<Rightarrow> FUVOverlapInfo
    \<Rightarrow> FAssetAnalysisResult" where
  "UVOverlapResult E m Profile OverlapInfo =
     \<lparr>ResAsset = MeshName m,
      Severity = DetermineOverlapSeverity E OverlapInfo Profile,
      ResRuleID = UVOverlapping_RuleID,
      Description = Some (TextFromString (GenerateOverlapDescription OverlapInfo (Some m))),
      FilePath = None,
      FixAction = None\<rparr>"

definition UVOverlapping_Check :: "Engine \<Rightarrow> UStaticMesh option \<Rightarrow> UPipelineGuardianProfile option
    \<Rightarrow> FAssetAnalysisResult list \<Rightarrow> bool \<times> FAssetAnalysisResult list" where
  "UVOverlapping_Check E Asset Profile OutResults =
    (case Profile of
       None \<Rightarrow> (False, OutResults)
     | Some P \<Rightarrow>
        if \<not> IsRuleEnabled P UVOverlapping_RuleID then (True, OutResults)
        else
         (case Asset of
            None \<Rightarrow> (False, OutResults)
          | Some m \<Rightarrow>
             (let r = AnalyzeStaticMeshUVOverlaps E (Some m) Profile []
              in if \<not> fst r then (False, OutResults)
                 else (True, OutResults @
                         map (UVOverlapResult E m Profile)
                           (filter (\<lambda>OverlapInfo. OverlappingTriangleCount OverlapInfo > 0) (snd r))))))"

subsection \<open>The material-slot rule\<close>








subsection \<open>The LOD polygon-reduction rule: FixAllLODReductions\<close>

text \<open>What the repair does to the outside, in order.\<close>

datatype Effect =
    EffModify
  | EffBuild
  | EffMarkPackageDirty
  | EffMessageDialog FText FText

text \<open>The body of the first loop, for one LOD index: the triangle count the previous
  LOD is taken to have, the target count, the fraction of LOD 0 written to the
  reduction settings. For a base LOD without triangles the float quotient is
  \<open>+\<infinity>\<close> (the target count is at least 4), which \<open>Clamp\<close> turns into \<open>1\<close>.\<close>

definition PreviousLODTrianglesFor :: "int \<Rightarrow> real \<Rightarrow> nat \<Rightarrow> int" where
  "PreviousLODTrianglesFor BaseLODTriangles TargetReductionPercentage LODIndex =
     (if LODIndex = 1 then BaseLODTriangles
      else RoundToInt (real_of_int BaseLODTriangles
             * ((100 - TargetReductionPercentage) / 100) ^ (LODIndex - 1)))"

definition TargetTriangleCount :: "int \<Rightarrow> real \<Rightarrow> nat \<Rightarrow> int" where
  "TargetTriangleCount BaseLODTriangles TargetReductionPercentage LODIndex =
     max (RoundToInt (real_of_int
            (PreviousLODTrianglesFor BaseLODTriangles TargetReductionPercentage LODIndex)
            * (100 - TargetReductionPercentage) / 100)) 4"

definition TargetTrianglePercentage :: "int \<Rightarrow> real \<Rightarrow> nat \<Rightarrow> real" where
  "TargetTrianglePercentage BaseLODTriangles TargetReductionPercentage LODIndex =
     (if BaseLODTriangles = 0 then 1
      else Clamp (real_of_int (TargetTriangleCount BaseLODTriangles TargetReductionPercentage LODIndex)
                    / real_of_int BaseLODTriangles) Float_0_01 1)"

definition ApplyReductionSettings :: "real \<Rightarrow> FMeshReductionSettings \<Rightarrow> FMeshReductionSettings" where
  "ApplyReductionSettings Percentage rs =
     rs\<lparr>PercentTriangles := Percentage, PercentVertices := Percentage, MaxDeviation := 0,
        PixelError := 8, WeldingThreshold := 0, HardAngleThreshold := 80, BaseLODModel := 0,
        SilhouetteImportance := Normal, TextureImportance := Normal,
        ShadingImportance := Normal\<rparr>"

definition UpdateSourceModel :: "int \<Rightarrow> real \<Rightarrow> nat \<Rightarrow> FMeshReductionSettings list
    \<Rightarrow> FMeshReductionSettings list" where
  "UpdateSourceModel BaseLODTriangles TargetReductionPercentage LODIndex sms =
     (if LODIndex < length sms
      then sms[LODIndex := ApplyReductionSettings
             (TargetTrianglePercentage BaseLODTriangles TargetReductionPercentage LODIndex)
             (sms ! LODIndex)]
      else sms)"

definition UpdateAllSourceModels :: "int \<Rightarrow> real \<Rightarrow> nat \<Rightarrow> FMeshReductionSettings list
    \<Rightarrow> FMeshReductionSettings list" where
  "UpdateAllSourceModels BaseLODTriangles TargetReductionPercentage TotalLODs sms =
     fold (UpdateSourceModel BaseLODTriangles TargetReductionPercentage) [1 ..< TotalLODs] sms"

text \<open>The second loop, after the rebuild. The achieved reduction is a float quotient:
  with a previous count of zero it is a NaN (new count zero too), which no comparison
  flags, or an infinity, which the tolerance test flags. Reading a LOD that the rebuilt
  mesh does not have stops the program (\<open>None\<close>).\<close>

record VerifyState =
  NewTriangleCounts :: "int list"
  ActualReductions :: "real option list"
  bAllFixesSuccessful :: bool

definition ActualReductionOf :: "int \<Rightarrow> int \<Rightarrow> real option" where
  "ActualReductionOf PreviousTriangles NewTriangleCount =
     (if PreviousTriangles = 0 then None
      else Some (real_of_int (PreviousTriangles - NewTriangleCount)
                   / real_of_int PreviousTriangles * 100))"

definition MissesTarget :: "int \<Rightarrow> int \<Rightarrow> real \<Rightarrow> bool" where
  "MissesTarget PreviousTriangles NewTriangleCount TargetReductionPercentage =
     (case ActualReductionOf PreviousTriangles NewTriangleCount of
        Some ActualReduction \<Rightarrow> \<bar>ActualReduction - TargetReductionPercentage\<bar> > 5
      | None \<Rightarrow> NewTriangleCount \<noteq> 0)"

definition VerifyStep :: "int \<Rightarrow> real \<Rightarrow> FStaticMeshLODResources list \<Rightarrow> nat
    \<Rightarrow> VerifyState option \<Rightarrow> VerifyState option" where
  "VerifyStep BaseLODTriangles TargetReductionPercentage NewLODs LODIndex st =
    (case st of
       None \<Rightarrow> None
     | Some s \<Rightarrow>
        if LODIndex \<ge> length NewLODs then None
        else
         (let PreviousTriangles =
                (if LODIndex = 1 then BaseLODTriangles else NewTriangleCounts s ! (LODIndex - 2));
              NewTriangleCount = NumTriangles (NewLODs ! LODIndex)
          in Some \<lparr>NewTriangleCounts = NewTriangleCounts s @ [NewTriangleCount],
                   ActualReductions = ActualReductions s
                     @ [ActualReductionOf PreviousTriangles NewTriangleCount],
                   bAllFixesSuccessful =
                     (if MissesTarget PreviousTriangles NewTriangleCount TargetReductionPercentage
                      then False else bAllFixesSuccessful s)\<rparr>))"

definition VerifyAll :: "int \<Rightarrow> real \<Rightarrow> FStaticMeshLODResources list \<Rightarrow> nat \<Rightarrow> VerifyState option" where
  "VerifyAll BaseLODTriangles TargetReductionPercentage NewLODs TotalLODs =
     fold (VerifyStep BaseLODTriangles TargetReductionPercentage NewLODs) [1 ..< TotalLODs]
       (Some \<lparr>NewTriangleCounts = [], ActualReductions = [], bAllFixesSuccessful = True\<rparr>)"

fun ReductionSummaryFrom :: "nat \<Rightarrow> real option list \<Rightarrow> FString" where
  "ReductionSummaryFrom i [] = []"
| "ReductionSummaryFrom i (a # as) =
     (if i > 0 then [Lit '', ''] else [])
     @ [Lit ''LOD'', Dec (int i + 1), Lit '': '',
        (case a of Some x \<Rightarrow> Flt1 x | None \<Rightarrow> NonFinite1), Lit ''%'']
     @ ReductionSummaryFrom (Suc i) as"

definition FixAllMessage :: "UStaticMesh \<Rightarrow> real \<Rightarrow> VerifyState \<Rightarrow> FText" where
  "FixAllMessage m TargetReductionPercentage s =
     TextFormat (if bAllFixesSuccessful s then ''LODReductionFixAllSuccess''
                 else ''LODReductionFixAllPartial'')
       [TextFromString [Lit (MeshName m)],
        TextFromString (ReductionSummaryFrom 0 (ActualReductions s)),
        TextAsNumber (RoundToInt TargetReductionPercentage)]"

text \<open>\<open>FixAllLODReductions\<close>: the mesh afterwards with the effects in order, or \<open>None\<close>
  where the C++ dereferences a null render data or indexes past the LOD array.\<close>

definition FixAllLODReductions :: "Engine \<Rightarrow> UStaticMesh option \<Rightarrow> int list \<Rightarrow> real
    \<Rightarrow> (UStaticMesh option \<times> Effect list) option" where
  "FixAllLODReductions E StaticMesh ProblematicLODList TargetReductionPercentage =
    (case StaticMesh of
       None \<Rightarrow> Some (None, [])
     | Some m \<Rightarrow>
        if length ProblematicLODList = 0 then Some (Some m, [])
        else if \<not> HasMeshReduction E
        then Some (Some m,
               [EffMessageDialog
                  (TextFormat ''LODReductionFixNoInterface'' [TextFromString [Lit (MeshName m)]])
                  (TextFormat ''LODReductionFixError'' [])])
        else
         (case RenderData m of
            None \<Rightarrow> None
          | Some [] \<Rightarrow> None
          | Some (BaseLOD # OtherLODs) \<Rightarrow>
             (let BaseLODTriangles = NumTriangles BaseLOD;
                  TotalLODs = length (BaseLOD # OtherLODs);
                  m1 = m\<lparr>SourceModels := UpdateAllSourceModels BaseLODTriangles
                          TargetReductionPercentage TotalLODs (SourceModels m)\<rparr>;
                  m2 = Build E m1
              in (case RenderData m2 of
                    None \<Rightarrow>
                     (if TotalLODs > 1 then None
                      else Some (Some m2,
                             [EffModify, EffBuild, EffMarkPackageDirty,
                              EffMessageDialog
                                (FixAllMessage m2 TargetReductionPercentage
                                   \<lparr>NewTriangleCounts = [], ActualReductions = [],
                                    bAllFixesSuccessful = True\<rparr>)
                                (TextFormat ''LODReductionFixComplete'' [])]))
                  | Some NewLODs \<Rightarrow>
                     (case VerifyAll BaseLODTriangles TargetReductionPercentage NewLODs TotalLODs of
                        None \<Rightarrow> None
                      | Some s \<Rightarrow>
                         Some (Some m2,
                           [EffModify, EffBuild, EffMarkPackageDirty,
                            EffMessageDialog (FixAllMessage m2 TargetReductionPercentage s)
                              (TextFormat ''LODReductionFixComplete'' [])]))))))"

subsection \<open>The asset scanner: registration and dispatch\<close>

record FAssetData =
  IsValidAssetData :: bool
  AssetName :: string
  PackageName :: string
  GetAsset :: "UObject option"

type_synonym IAssetAnalyzer =
  "FAssetData \<Rightarrow> UPipelineGuardianProfile option \<Rightarrow> FAssetAnalysisResult list
     \<Rightarrow> FAssetAnalysisResult list"

text \<open>The analyzer table maps a class to a shared pointer, which may be null.\<close>

type_synonym AnalyzersMap = "UClass \<Rightarrow> IAssetAnalyzer option option"

definition RegisterAssetAnalyzer :: "UClass option \<Rightarrow> IAssetAnalyzer option \<Rightarrow> AnalyzersMap \<Rightarrow> AnalyzersMap" where
  "RegisterAssetAnalyzer AssetClass Analyzer M =
    (case AssetClass of
       None \<Rightarrow> M
     | Some c \<Rightarrow> (case Analyzer of None \<Rightarrow> M | Some a \<Rightarrow> M(c \<mapsto> Some a)))"

text \<open>The loop up the class hierarchy.\<close>

fun FindAnalyzer :: "AnalyzersMap \<Rightarrow> UClass \<Rightarrow> IAssetAnalyzer option" where
  "FindAnalyzer M (UClass n super) =
    (case M (UClass n super) of
       Some (Some a) \<Rightarrow> Some a
     | _ \<Rightarrow> (case super of None \<Rightarrow> None | Some c \<Rightarrow> FindAnalyzer M c))"

definition AnalyzeSingleAsset :: "AnalyzersMap \<Rightarrow> FAssetData \<Rightarrow> UPipelineGuardianSettings option
    \<Rightarrow> FAssetAnalysisResult list \<Rightarrow> FAssetAnalysisResult list" where
  "AnalyzeSingleAsset M AssetData Settings OutResults =
    (if \<not> IsValidAssetData AssetData then OutResults
     else
      (case GetAsset AssetData of
         None \<Rightarrow> OutResults
       | Some AssetObj \<Rightarrow>
          (case FindAnalyzer M (GetClass AssetObj) of
             Some FoundAnalyzer \<Rightarrow>
              (case (case Settings of Some S \<Rightarrow> GetActiveProfile S | None \<Rightarrow> None) of
                 Some P \<Rightarrow> FoundAnalyzer AssetData (Some P) OutResults
               | None \<Rightarrow> OutResults)
           | None \<Rightarrow> OutResults)))"

text \<open>The chain of a class and its super classes, most derived first.\<close>

fun ClassChain :: "UClass \<Rightarrow> UClass list" where
  "ClassChain (UClass n super) =
     UClass n super # (case super of None \<Rightarrow> [] | Some c \<Rightarrow> ClassChain c)"

definition HasAnalyzer :: "AnalyzersMap \<Rightarrow> UClass \<Rightarrow> bool" where
  "HasAnalyzer M c = (case M c of Some (Some a) \<Rightarrow> True | _ \<Rightarrow> False)"

subsection \<open>The evaluation phase of a scan\<close>

datatype EAssetScanMode = Project | SelectedFolders | SelectedAssets | OpenLevel

text \<open>What the window holds and asks from outside: the scanner (its analyzer table) and
  the report view, which may be null, the default settings object, the asset registry
  query behind \<open>ScanAssetsInPath\<close> (recursive), and the answer of the progress dialog
  to the \<open>k\<close>-th call of \<open>ShouldCancel\<close>, counted from zero.\<close>

record Window =
  AssetScanner :: "AnalyzersMap option"
  DefaultSettings :: "UPipelineGuardianSettings option"
  ReportViewValid :: bool
  ScanAssetsInPath :: "string \<Rightarrow> FAssetData list"
  ShouldCancel :: "nat \<Rightarrow> bool"

text \<open>The local variables of the evaluation loop, with two counters that record how
  often the loop asked for cancellation and pumped the message queue.\<close>

record ScanLoopState =
  ProcessedCount :: int
  FinalResults :: "FAssetAnalysisResult list"
  FinalOperationSummaryMessage :: FText
  CancelPolls :: nat
  MessagePumps :: nat

fun EvaluateAssets :: "AnalyzersMap \<Rightarrow> UPipelineGuardianSettings option \<Rightarrow> (nat \<Rightarrow> bool) \<Rightarrow> int
    \<Rightarrow> FAssetData list \<Rightarrow> ScanLoopState \<Rightarrow> ScanLoopState" where
  "EvaluateAssets M Settings Cancel Num [] s = s"
| "EvaluateAssets M Settings Cancel Num (AssetData # rest) s =
    (if Cancel (CancelPolls s)
     then s\<lparr>CancelPolls := Suc (CancelPolls s),
            FinalOperationSummaryMessage :=
              TextFormat ''AnalysisCancelledByUser''
                [TextAsNumber (ProcessedCount s), TextAsNumber Num]\<rparr>
     else EvaluateAssets M Settings Cancel Num rest
            (s\<lparr>CancelPolls := Suc (CancelPolls s),
               FinalResults := AnalyzeSingleAsset M AssetData Settings (FinalResults s),
               ProcessedCount := ProcessedCount s + 1,
               MessagePumps := (if (ProcessedCount s + 1) mod 10 = 0
                                then Suc (MessagePumps s) else MessagePumps s)\<rparr>))"

text \<open>What the window shows when the phase ends: the progress flag and the status text
  set by \<open>SetAnalysisInProgress\<close>, the results given to the report view, and the locals
  of the loop as they are when the function returns (nothing reads them afterwards).\<close>

record ScanPhaseOutcome =
  bIsAnalysisInProgress :: bool
  StatusText :: FText
  ReportResults :: "FAssetAnalysisResult list"
  LocalsAtReturn :: "ScanLoopState option"

text \<open>The body that \<open>OnAssetScanPhaseComplete\<close> runs on the game thread. \<open>None\<close> is the
  call through a null report view.\<close>

definition OnAssetScanPhaseComplete :: "Window \<Rightarrow> EAssetScanMode \<Rightarrow> string list \<Rightarrow> FAssetData list
    \<Rightarrow> FText \<Rightarrow> ScanPhaseOutcome option" where
  "OnAssetScanPhaseComplete W CompletedScanMode CompletedScanParameters DiscoveredAssetsFromTask
      TaskCompletionMessage =
    (case AssetScanner W of
       None \<Rightarrow>
        (if ReportViewValid W
         then Some \<lparr>bIsAnalysisInProgress = False,
                    StatusText = TextFormat ''AnalysisPhaseCompleteErrorInternal'' [],
                    ReportResults = [], LocalsAtReturn = None\<rparr>
         else None)
     | Some M \<Rightarrow>
        if DefaultSettings W = None \<or> \<not> ReportViewValid W
        then (if ReportViewValid W
              then Some \<lparr>bIsAnalysisInProgress = False,
                         StatusText = TextFormat ''AnalysisPhaseCompleteErrorInternal'' [],
                         ReportResults = [], LocalsAtReturn = None\<rparr>
              else None)
        else
         (let AssetsToActuallyAnalyze =
                (if CompletedScanMode = Project then ScanAssetsInPath W ''/Game/''
                 else if CompletedScanMode = SelectedFolders
                 then concat (map (ScanAssetsInPath W) CompletedScanParameters)
                 else DiscoveredAssetsFromTask);
              Summary0 =
                (if CompletedScanMode = Project
                 then TextFormat ''ProjectScanGTDiscoveryCompleteFmt''
                        [TextAsNumber (int (length AssetsToActuallyAnalyze))]
                 else if CompletedScanMode = SelectedFolders
                 then TextFormat ''FolderScanGTDiscoveryCompleteFmt''
                        [TextAsNumber (int (length AssetsToActuallyAnalyze)),
                         TextAsNumber (int (length CompletedScanParameters))]
                 else TaskCompletionMessage);
              s0 = \<lparr>ProcessedCount = 0, FinalResults = [],
                    FinalOperationSummaryMessage = Summary0, CancelPolls = 0,
                    MessagePumps = 0\<rparr>;
              s1 = (if length AssetsToActuallyAnalyze > 0
                    then EvaluateAssets M (DefaultSettings W) (ShouldCancel W)
                           (int (length AssetsToActuallyAnalyze)) AssetsToActuallyAnalyze s0
                    else if CompletedScanMode = Project \<or> CompletedScanMode = SelectedFolders
                    then s0\<lparr>FinalOperationSummaryMessage :=
                              TextFormat ''NoAssetsFoundAfterGTDiscovery'' [Summary0]\<rparr>
                    else s0)
          in Some \<lparr>bIsAnalysisInProgress = False,
                    StatusText = TextFormat ''AnalysisFullyCompleteWithDetailsFmt''
                      [TaskCompletionMessage,
                       TextAsNumber (int (length AssetsToActuallyAnalyze)),
                       TextAsNumber (int (length (FinalResults s1)))],
                    ReportResults = FinalResults s1,
                    LocalsAtReturn = Some s1\<rparr>))"

subsection \<open>Example inputs\<close>

text \<open>Concrete inputs for the evaluations below. \<open>ExampleAtof\<close> reads the decimal
  strings that occur in them as the float nearest to each and, like \<open>atof\<close>, yields
  zero for anything else.\<close>

definition ExampleAtof :: "string \<Rightarrow> real" where
  "ExampleAtof s =
     (if s = ''30.0'' then 30 else if s = ''20.0'' then 20 else if s = ''10.0'' then 10
      else if s = ''0.001'' then Float_0_001 else if s = ''0.0005'' then Float_0_0005
      else if s = ''5.0'' then 5 else if s = ''15.0'' then 15
      else if s = ''2.0'' then 2 else if s = ''8.0'' then 8 else 0)"

definition ExampleEngine :: Engine where
  "ExampleEngine = \<lparr>Atof = ExampleAtof, HasMeshReduction = True, Build = (\<lambda>m. m)\<rparr>"

definition ExampleLODMesh :: UStaticMesh where
  "ExampleLODMesh =
     \<lparr>MeshName = ''SM_Rock'', MeshPackageName = ''/Game/SM_Rock'',
      RenderData = Some [\<lparr>NumTriangles = 10000, NumVertices = 6000\<rparr>,
                         \<lparr>NumTriangles = 9500, NumVertices = 5800\<rparr>],
      SourceModels = [], MeshDescription0 = None, LightMapCoordinateIndex = 1,
      StaticMaterials = [Some ''M_Rock'', None]\<rparr>"

definition ExampleProfile :: UPipelineGuardianProfile where
  "ExampleProfile =
     \<lparr>ProfileName = ''Strict'', ProfileDescription = ''Strict checks'', Version = 3,
      RuleConfigs =
        [\<lparr>RuleID = ''SM_UVOverlapping'', bEnabled = False,
          Parameters = [(''CheckUVChannel0'', ''true''), (''TextureUVTolerance'', ''0.002'')]\<rparr>,
         \<lparr>RuleID = ''SM_Naming'', bEnabled = True, Parameters = []\<rparr>]\<rparr>"


definition DuplicateRulesDocument :: json where
  "DuplicateRulesDocument =
     JObject [(''ProfileName'', JString ''Twice''),
              (''Rules'', JArray
                 [JObject [(''RuleID'', JString ''SM_Naming''), (''Enabled'', JBool True)],
                  JObject [(''RuleID'', JString ''SM_Naming''), (''Enabled'', JBool False)]])]"



definition OverlapMeshDescription :: FMeshDescription where
  "OverlapMeshDescription =
     \<lparr>UVsValid = True, NumUVChannels = 1,
      Triangles = [(0, [0, 1, 2]), (1, [3, 4, 5])],
      UVGet = (\<lambda>v c. if v = 0 \<or> v = 3 then (0, 0)
                      else if v = 1 \<or> v = 4 then (1, 0) else (0, 1))\<rparr>"

definition OverlapMesh :: UStaticMesh where
  "OverlapMesh =
     \<lparr>MeshName = ''SM_Card'', MeshPackageName = ''/Game/SM_Card'',
      RenderData = Some [\<lparr>NumTriangles = 2, NumVertices = 6\<rparr>],
      SourceModels = [], MeshDescription0 = Some OverlapMeshDescription,
      LightMapCoordinateIndex = 1, StaticMaterials = [Some ''M_Card'']\<rparr>"

definition UnitBox :: "int \<Rightarrow> FTriangleUVBounds" where
  "UnitBox t = \<lparr>MinUV = (0, 0), MaxUV = (1, 1), TriangleID = t\<rparr>"

definition ObjectClass :: UClass where
  "ObjectClass = UClass ''Object'' None"

definition StaticMeshClass :: UClass where
  "StaticMeshClass = UClass ''StaticMesh'' (Some ObjectClass)"

definition DerivedMeshClass :: UClass where
  "DerivedMeshClass = UClass ''InstancedStaticMesh'' (Some StaticMeshClass)"

definition TextureClass :: UClass where
  "TextureClass = UClass ''Texture2D'' (Some ObjectClass)"

definition ExampleAnalyzer :: IAssetAnalyzer where
  "ExampleAnalyzer AssetData Profile OutResults =
     OutResults @ [\<lparr>ResAsset = AssetName AssetData, Severity = Warning, ResRuleID = ''SM_Naming'',
                    Description = None, FilePath = None, FixAction = None\<rparr>]"

definition ExampleAnalyzers :: AnalyzersMap where
  "ExampleAnalyzers = RegisterAssetAnalyzer (Some StaticMeshClass) (Some ExampleAnalyzer) (\<lambda>c. None)"

definition ExampleSettings :: UPipelineGuardianSettings where
  "ExampleSettings =
     \<lparr>GetActiveProfile = Some NewProfile, bEnableStaticMeshMaterialSlotRule = True,
      MaterialSlotIssueSeverity = Warning, MaterialSlotWarningThreshold = 4,
      MaterialSlotErrorThreshold = 6, bAllowMaterialSlotAutoFix = True\<rparr>"

definition ExampleAsset :: "string \<Rightarrow> UClass \<Rightarrow> UStaticMesh option \<Rightarrow> FAssetData" where
  "ExampleAsset name c mesh =
     \<lparr>IsValidAssetData = True, AssetName = name, PackageName = ''/Game/'' @ name,
      GetAsset = Some \<lparr>GetClass = c, CastStaticMesh = mesh\<rparr>\<rparr>"

definition MeshAsset :: "string \<Rightarrow> UClass \<Rightarrow> FAssetData" where
  "MeshAsset name c = ExampleAsset name c (Some ExampleLODMesh)"

definition TextureAsset :: FAssetData where
  "TextureAsset = ExampleAsset ''T_Wood'' TextureClass None"

definition UnloadableAsset :: FAssetData where
  "UnloadableAsset =
     \<lparr>IsValidAssetData = True, AssetName = ''SM_Gone'', PackageName = ''/Game/SM_Gone'',
      GetAsset = None\<rparr>"

definition ExampleWindow :: Window where
  "ExampleWindow =
     \<lparr>AssetScanner = Some ExampleAnalyzers, DefaultSettings = Some ExampleSettings,
      ReportViewValid = True, ScanAssetsInPath = (\<lambda>p. []),
      ShouldCancel = (\<lambda>k. 2 \<le> k)\<rparr>"

definition ExampleTaskMessage :: FText where
  "ExampleTaskMessage = TextFormat ''SelectedAssetsReadyForAnalysisFmt'' [TextAsNumber 3]"

definition ExampleResult :: "string \<Rightarrow> FAssetAnalysisResult" where
  "ExampleResult name =
     \<lparr>ResAsset = name, Severity = Warning, ResRuleID = ''SM_Naming'',
      Description = None, FilePath = None, FixAction = None\<rparr>"

subsection \<open>Profile store: lemmas\<close>

lemma update_fresh_key:
  "k \<notin> fst ` set al \<Longrightarrow> AList.update k v al = al @ [(k, v)]"
  by (induction al) auto

lemma fold_update_distinct:
  "distinct (map fst ps) \<Longrightarrow> fst ` set ps \<inter> fst ` set acc = {} \<Longrightarrow>
   fold (\<lambda>(k, v) obj. AList.update k (f v) obj) ps acc = acc @ map (\<lambda>(k, v). (k, f v)) ps"
proof (induction ps arbitrary: acc)
  case Nil
  then show ?case by simp
next
  case (Cons p ps)
  obtain k v where p: "p = (k, v)" by (cases p)
  from Cons.prems p have fresh: "k \<notin> fst ` set acc" by auto
  have step: "AList.update k (f v) acc = acc @ [(k, f v)]"
    using fresh by (rule update_fresh_key)
  from Cons.prems p have d: "distinct (map fst ps)" by simp
  from Cons.prems p have disj: "fst ` set ps \<inter> fst ` set (acc @ [(k, f v)]) = {}"
    by (auto simp: image_iff)
  show ?case
    using Cons.IH [OF d disj] by (simp add: p step)
qed

lemma ExportParameters_distinct:
  "distinct (map fst ps) \<Longrightarrow> ExportParameters ps = map (\<lambda>(k, v). (k, JString v)) ps"
  unfolding ExportParameters_def using fold_update_distinct [of ps "[]" JString] by simp

lemma ImportParameters_fold:
  "ImportParameters (map (\<lambda>(k, v). (k, JString v)) ps) acc
     = fold (\<lambda>(k, v) obj. AList.update k v obj) ps acc"
  unfolding ImportParameters_def
  by (induction ps arbitrary: acc) (auto simp: TryGetString_def)

lemma ImportParameters_strings:
  "distinct (map fst ps) \<Longrightarrow>
   ImportParameters (map (\<lambda>(k, v). (k, JString v)) ps) [] = ps"
  using fold_update_distinct [of ps "[]" "\<lambda>v. v"]
  by (simp add: ImportParameters_fold)

lemma ImportRuleObject_ExportRule:
  assumes "distinct (map fst (Parameters c))"
  shows "(case ExportRule c of JObject obj \<Rightarrow> ImportRuleObject obj | _ \<Rightarrow> DefaultRuleConfig) = c"
  using assms
  by (simp add: ExportRule_def ImportRuleObject_def TryGetStringField_def TryGetBoolField_def
      TryGetObjectField_def DefaultRuleConfig_def ExportParameters_distinct
      ImportParameters_strings)

lemma ImportRules_Export:
  "\<forall>c \<in> set cs. distinct (map fst (Parameters c)) \<Longrightarrow>
   ImportRules (map ExportRule cs) acc = acc @ cs"
proof (induction cs arbitrary: acc)
  case Nil
  then show ?case by simp
next
  case (Cons c cs)
  have d: "distinct (map fst (Parameters c))" using Cons.prems by simp
  obtain obj where obj: "ExportRule c = JObject obj"
    by (simp add: ExportRule_def)
  have again: "ImportRuleObject obj = c"
    using ImportRuleObject_ExportRule [OF d] by (simp add: obj)
  have "ImportRules (map ExportRule cs) (acc @ [c]) = (acc @ [c]) @ cs"
    using Cons.IH [of "acc @ [c]"] Cons.prems by simp
  then show ?case
    by (simp add: obj TryGetObject_def again)
qed

lemma distinct_SetRuleConfigIn_set:
  "RuleID ` set (SetRuleConfigIn rc cs) = insert (RuleID rc) (RuleID ` set cs)"
  by (induction cs) auto

lemma distinct_SetRuleConfigIn:
  "distinct (map RuleID cs) \<Longrightarrow> distinct (map RuleID (SetRuleConfigIn rc cs))"
proof (induction cs)
  case Nil
  then show ?case by simp
next
  case (Cons c cs)
  show ?case
  proof (cases "RuleID c = RuleID rc")
    case True
    then show ?thesis using Cons.prems by simp
  next
    case False
    have "RuleID c \<notin> RuleID ` set (SetRuleConfigIn rc cs)"
      using False Cons.prems by (simp add: distinct_SetRuleConfigIn_set)
    then show ?thesis using False Cons by simp
  qed
qed

lemma SetRuleConfig_unique:
  "distinct (map RuleID (RuleConfigs P)) \<Longrightarrow>
   distinct (map RuleID (RuleConfigs (SetRuleConfig rc P)))"
  by (simp add: SetRuleConfig_def distinct_SetRuleConfigIn)

lemma NewProfile_rule_ids:
  "map RuleID (RuleConfigs NewProfile) =
     [''SM_Naming'', ''SM_LODMissing'', ''SM_LODPolyReduction'', ''SM_UVOverlapping'',
      ''SM_TriangleCount'']"
  by (simp add: NewProfile_def InitializeDefaultRules_def SetRuleConfig_def
      MakeRuleConfig_def AddParam_def Let_def)

lemma NewProfile_unique: "distinct (map RuleID (RuleConfigs NewProfile))"
  by (simp add: NewProfile_rule_ids)

text \<open>
  Claim C5. For every profile, importing the document that \<open>ExportToJSON\<close> produces for
  it gives back the same rule configurations: the same rule ids, the same enabled
  flags and the same parameter pairs. The parameter table of a rule is a map, so its
  keys are distinct; under that the imported profile is the exported one, name,
  description, version and the order of the rules included, whatever the importing
  profile held before.
\<close>

theorem export_import_roundtrip:
  assumes "\<forall>c \<in> set (RuleConfigs P). distinct (map fst (Parameters c))"
  shows "ImportFromJSON (Some (ExportToJSON P)) Q = (True, P)"
  using assms
  by (simp add: ImportFromJSON_def ExportToJSON_def HasField_def GetStringField_def
      GetIntegerField_def TryGetArrayField_def ImportRules_Export)

theorem export_import_roundtrip_witness:
  "list_all (\<lambda>c. distinct (map fst (Parameters c))) (RuleConfigs ExampleProfile)
   \<and> ImportFromJSON (Some (ExportToJSON ExampleProfile)) NewProfile = (True, ExampleProfile)"
proof -
  have h: "\<forall>c \<in> set (RuleConfigs ExampleProfile). distinct (map fst (Parameters c))"
    by (simp add: ExampleProfile_def)
  show ?thesis using h export_import_roundtrip [OF h, of NewProfile]
    by (simp add: list_all_iff)
qed

text \<open>
  Claim C9. Every operation that changes the rule configurations is meant to leave at
  most one configuration per rule id. \<open>SetRuleConfig\<close> does (\<open>SetRuleConfig_unique\<close>),
  and the seeded profile has five distinct ids (\<open>NewProfile_unique\<close>); \<open>ImportFromJSON\<close>
  appends every rule object of the document without looking for its id, so a document
  that names a rule twice leaves two configurations with one id.
\<close>

theorem import_keeps_duplicate_rule_ids:
  "distinct (map RuleID (RuleConfigs NewProfile))
   \<and> fst (ImportFromJSON (Some DuplicateRulesDocument) NewProfile)
   \<and> map RuleID (RuleConfigs (snd (ImportFromJSON (Some DuplicateRulesDocument) NewProfile)))
       = [''SM_Naming'', ''SM_Naming'']
   \<and> \<not> distinct (map RuleID
         (RuleConfigs (snd (ImportFromJSON (Some DuplicateRulesDocument) NewProfile))))"
  by (simp add: NewProfile_rule_ids ImportFromJSON_def DuplicateRulesDocument_def HasField_def
      GetStringField_def TryGetArrayField_def TryGetObject_def ImportRuleObject_def
      TryGetStringField_def TryGetBoolField_def TryGetObjectField_def DefaultRuleConfig_def)

subsection \<open>Rules and the enabled flag\<close>

lemma find_SetRuleConfigIn:
  "find (\<lambda>c. RuleID c = RuleID rc) (SetRuleConfigIn rc cs) = Some rc"
  by (induction cs) auto

lemma IsRuleEnabled_SetRuleConfig:
  "IsRuleEnabled (SetRuleConfig rc P) (RuleID rc) = bEnabled rc"
  by (simp add: IsRuleEnabled_def GetRuleConfigPtr_def SetRuleConfig_def find_SetRuleConfigIn)


text \<open>
  Claim C3. A rule that the active profile disables returns false from \<open>Check\<close> and adds
  nothing to the output array. Evaluated for a profile in which the rule has just been
  set to disabled: both rules leave the output array as it was; the LOD rule returns
  false, the UV-overlap rule returns true.
\<close>

theorem disabled_rule_return_values:
  "UVOverlapping_Check E a (Some (SetRuleConfig (MakeRuleConfig UVOverlapping_RuleID False) P)) rs
     = (True, rs)
   \<and> LODPolyReduction_Check E a (Some (SetRuleConfig (MakeRuleConfig LODPolyReduction_RuleID False) P)) rs
     = (False, rs)"
proof -
  have uv: "\<not> IsRuleEnabled (SetRuleConfig (MakeRuleConfig UVOverlapping_RuleID False) P)
              UVOverlapping_RuleID"
    using IsRuleEnabled_SetRuleConfig [of "MakeRuleConfig UVOverlapping_RuleID False" P]
    by (simp add: MakeRuleConfig_def)
  have lod: "\<not> IsRuleEnabled (SetRuleConfig (MakeRuleConfig LODPolyReduction_RuleID False) P)
              LODPolyReduction_RuleID"
    using IsRuleEnabled_SetRuleConfig [of "MakeRuleConfig LODPolyReduction_RuleID False" P]
    by (simp add: MakeRuleConfig_def)
  show ?thesis
    using uv lod
    by (simp add: UVOverlapping_Check_def LODPolyReduction_Check_def split: option.splits)
qed




subsection \<open>The LOD polygon-reduction rule: severity\<close>

lemma LODPairStep_WorstSeverity:
  "WorstSeverity s = Info \<Longrightarrow> WorstSeverity (LODPairStep m mn w e i s) = Info"
  by (simp add: LODPairStep_def Let_def)
     (cases "GetSeverityForReduction
        (CalculateReductionPercentage (GetLODTriangleCount m (i - 1)) (GetLODTriangleCount m i))
        mn w e"; simp)

lemma fold_LODPairStep_WorstSeverity:
  "WorstSeverity s = Info \<Longrightarrow>
   WorstSeverity (fold (\<lambda>i. LODPairStep m mn w e (int i)) is s) = Info"
  by (induction "is" arbitrary: s) (simp_all add: LODPairStep_WorstSeverity)

lemma LODPairLoop_WorstSeverity: "WorstSeverity (LODPairLoop m mn w e n) = Info"
  by (simp add: LODPairLoop_def fold_LODPairStep_WorstSeverity)

text \<open>
  Claim C2. The one result reported for a mesh carries the most severe of the severities
  of its non-compliant LOD pairs, a pair being Info below the minimum reduction,
  Warning below the warning threshold and Error below the error threshold. Evaluated
  for a mesh with 10000 and 9500 triangles under the seeded profile (minimum 30,
  warning 20, error 10): the reduction of 5 percent makes the pair an Error, the rule
  reports one result, and its severity is Info. The loop starts from Info and replaces
  it only by a severity that is greater in the enum, where Info is the greatest value,
  so that the reported severity is Info for every mesh (\<open>LODPairLoop_WorstSeverity\<close>).
\<close>

theorem lod_check_worst_severity_is_info:
  "GetSeverityForReduction (CalculateReductionPercentage 10000 9500)
      (Atof ExampleEngine ''30.0'') (Atof ExampleEngine ''20.0'') (Atof ExampleEngine ''10.0'') = Error
   \<and> fst (LODPolyReduction_Check ExampleEngine (Some ExampleLODMesh) (Some NewProfile) [])
   \<and> map Severity (snd (LODPolyReduction_Check ExampleEngine (Some ExampleLODMesh) (Some NewProfile) []))
       = [Info]"
  by (simp add: LODPolyReduction_Check_def ExampleEngine_def ExampleAtof_def ExampleLODMesh_def
      NewProfile_def InitializeDefaultRules_def SetRuleConfig_def MakeRuleConfig_def AddParam_def
      IsRuleEnabled_def GetRuleConfigPtr_def GetRuleParameter_def LODPolyReduction_RuleID_def
      LODPairLoop_def LODPairStep_def GetLODTriangleCount_def CalculateReductionPercentage_def
      GetSeverityForReduction_def AddUnique_def Let_def)

subsection \<open>The LOD polygon-reduction rule: repair\<close>

lemma Clamp_bounds: "lo \<le> hi \<Longrightarrow> lo \<le> Clamp x lo hi \<and> Clamp x lo hi \<le> hi"
  by (simp add: Clamp_def)

lemma TargetTriangleCount_ge_4: "4 \<le> TargetTriangleCount B T i"
  by (simp add: TargetTriangleCount_def)

lemma TargetTrianglePercentage_bounds:
  "Float_0_01 \<le> TargetTrianglePercentage B T i \<and> TargetTrianglePercentage B T i \<le> 1"
  using Clamp_bounds [of Float_0_01 1]
  by (simp add: TargetTrianglePercentage_def Float_0_01_def)

lemma FixAllLODReductions_builds_once:
  "FixAllLODReductions E StaticMesh ProblematicLODList T = Some (m', effects) \<Longrightarrow>
   count_list effects EffBuild \<le> 1"
  by (auto simp: FixAllLODReductions_def Let_def split: option.splits list.splits if_splits)


subsection \<open>The UV-overlap rule: detection and report\<close>

lemma BuildTriangleUVBounds_OverlapMesh:
  "BuildTriangleUVBounds (Some OverlapMeshDescription) 0 = [UnitBox 0, UnitBox 1]"
  by (simp add: BuildTriangleUVBounds_def GetTriangleUVBounds_def OverlapMeshDescription_def
      GetArea_def MAX_flt_def UnitBox_def)

lemma Overlaps_UnitBoxes: "Overlaps (UnitBox 0) (UnitBox 1) Float_0_001"
  by (simp add: Overlaps_def OverlapArea_def GetArea_def UnitBox_def Float_0_001_def)

text \<open>
  Claim C1. Two triangle boxes count as overlapping if and only if the area of their
  intersection strictly exceeds the tolerance times the smaller box area, and a channel
  is reported as having overlaps whenever some pair of non-degenerate boxes overlaps by
  more than the tolerance. Evaluated for a mesh of two triangles with the same UV
  coordinates in channel 0 under the seeded profile: both boxes are the unit square,
  the tolerance of the channel is \<open>0.001f\<close>, the pair overlaps (area 1 against a
  threshold of \<open>0.001f\<close>) and the pairwise detection finds both triangles; the channel
  analysis drops that list, reports nothing, and the rule adds no result. All
  coordinates and products on this input are exact floats.
\<close>

theorem overlapping_pair_not_reported:
  "BuildTriangleUVBounds (Some OverlapMeshDescription) 0 = [UnitBox 0, UnitBox 1]
   \<and> GetOverlapToleranceForChannel ExampleEngine (Some NewProfile) 0 = Float_0_001
   \<and> Overlaps (UnitBox 0) (UnitBox 1) Float_0_001
   \<and> DetectOverlappingTriangles [UnitBox 0, UnitBox 1] Float_0_001 = [0, 1]
   \<and> \<not> fst (AnalyzeUVChannelOverlaps (Some OverlapMeshDescription) 0 Float_0_001 NewUVOverlapInfo)
   \<and> UVOverlapping_Check ExampleEngine (Some OverlapMesh) (Some NewProfile) [] = (True, [])"
proof -
  have tol: "GetOverlapToleranceForChannel ExampleEngine (Some NewProfile) 0 = Float_0_001"
    by (simp add: GetOverlapToleranceForChannel_def ExampleEngine_def ExampleAtof_def
        NewProfile_def InitializeDefaultRules_def SetRuleConfig_def MakeRuleConfig_def AddParam_def
        GetRuleParameter_def GetRuleConfigPtr_def UVOverlapping_RuleID_def Clamp_def Let_def
        Float_0_001_def Float_0_0001_def Float_0_01_def)
  have d: "DetectOverlappingTriangles [UnitBox 0, UnitBox 1] Float_0_001 = [0, 1]"
    using Overlaps_UnitBoxes
    by (simp add: DetectOverlappingTriangles_def AddUnique_def) (simp add: UnitBox_def)
  have "length (filter Q (Triangles OverlapMeshDescription)) \<le> 2" for Q
    using length_filter_le [of Q "Triangles OverlapMeshDescription"]
    by (simp add: OverlapMeshDescription_def)
  then have len: "length (BuildTriangleUVBounds (Some OverlapMeshDescription) c) \<le> 2" for c
    by (simp add: BuildTriangleUVBounds_def)
  have a: "\<not> fst (AnalyzeUVChannelOverlaps (Some OverlapMeshDescription) c t info)" for c t info
    using len [of c] by (simp add: AnalyzeUVChannelOverlaps_def Let_def)
  have en: "IsRuleEnabled NewProfile UVOverlapping_RuleID"
    by (simp add: NewProfile_def InitializeDefaultRules_def SetRuleConfig_def MakeRuleConfig_def
        AddParam_def IsRuleEnabled_def GetRuleConfigPtr_def UVOverlapping_RuleID_def Let_def)
  have ch: "AnalyzeChannel ExampleEngine (Some OverlapMeshDescription) (Some NewProfile) c out = out"
    for c out
    using a by (simp add: AnalyzeChannel_def Let_def)
  have fl: "fold (\<lambda>c. AnalyzeChannel ExampleEngine (Some OverlapMeshDescription)
                     (Some NewProfile) (int c)) cs out = out" for cs out
    by (induction cs arbitrary: out) (simp_all add: ch)
  have an: "AnalyzeStaticMeshUVOverlaps ExampleEngine (Some OverlapMesh) (Some NewProfile) [] = (True, [])"
    by (simp add: AnalyzeStaticMeshUVOverlaps_def OverlapMesh_def fl)
  have c: "UVOverlapping_Check ExampleEngine (Some OverlapMesh) (Some NewProfile) [] = (True, [])"
    by (simp add: UVOverlapping_Check_def en an)
  show ?thesis
    using BuildTriangleUVBounds_OverlapMesh tol Overlaps_UnitBoxes d a c by simp
qed

theorem overlapping_pair_not_reported_witness:
  "DetectOverlappingTriangles (BuildTriangleUVBounds (Some OverlapMeshDescription) 0)
      (GetOverlapToleranceForChannel ExampleEngine (Some NewProfile) 0) = [0, 1]
   \<and> snd (UVOverlapping_Check ExampleEngine (Some OverlapMesh) (Some NewProfile) []) = []"
  using overlapping_pair_not_reported by simp

subsection \<open>Dispatch and the evaluation loop\<close>

lemma FindAnalyzer_chain:
  "ClassChain c = pre @ d # post \<Longrightarrow> \<forall>x \<in> set pre. \<not> HasAnalyzer M x \<Longrightarrow>
   M d = Some (Some a) \<Longrightarrow> FindAnalyzer M c = Some a"
proof (induction pre arbitrary: c)
  case Nil
  obtain n super where c: "c = UClass n super" by (cases c)
  have "d = c" using Nil.prems(1) c by simp
  then show ?case using Nil.prems(3) c by simp
next
  case (Cons x pre')
  obtain n super where c: "c = UClass n super" by (cases c)
  have x: "x = c" using Cons.prems(1) c by simp
  have rest: "(case super of None \<Rightarrow> [] | Some c' \<Rightarrow> ClassChain c') = pre' @ d # post"
    using Cons.prems(1) c by simp
  then obtain c' where sup: "super = Some c'" and chain: "ClassChain c' = pre' @ d # post"
    by (cases super) auto
  have no: "\<not> HasAnalyzer M c" using Cons.prems(2) x by simp
  have pre': "\<forall>x \<in> set pre'. \<not> HasAnalyzer M x" using Cons.prems(2) by simp
  have "FindAnalyzer M c' = Some a"
    using Cons.IH [OF chain pre' Cons.prems(3)] .
  then show ?case
    using no sup c by (auto simp: HasAnalyzer_def split: option.splits)
qed

lemma FindAnalyzer_none:
  "\<forall>x \<in> set (ClassChain c). \<not> HasAnalyzer M x \<Longrightarrow> FindAnalyzer M c = None"
  by (induction M c rule: FindAnalyzer.induct)
     (auto simp: HasAnalyzer_def split: option.splits)

text \<open>
  Claim C7. For an asset that loads, whose own class has no analyzer and whose chain of
  super classes, walked from the most derived class, first meets an analyzer at an
  ancestor, dispatch runs that analyzer on the asset with the active profile and
  returns what it returns. For an asset with no analyzer anywhere in the chain of its
  class, dispatch leaves the results as they are.
\<close>

theorem dispatch_walks_ancestors:
  "(IsValidAssetData ad \<and> GetAsset ad = Some obj
      \<and> ClassChain (GetClass obj) = pre @ c # post \<and> pre \<noteq> []
      \<and> (\<forall>d \<in> set pre. \<not> HasAnalyzer M d) \<and> M c = Some (Some a)
      \<and> GetActiveProfile S = Some P
      \<longrightarrow> AnalyzeSingleAsset M ad (Some S) rs = a ad (Some P) rs)
   \<and> (GetAsset ad' = Some obj'
      \<and> (\<forall>d \<in> set (ClassChain (GetClass obj')). \<not> HasAnalyzer M' d)
      \<longrightarrow> AnalyzeSingleAsset M' ad' S' rs' = rs')"
  by (auto simp: AnalyzeSingleAsset_def FindAnalyzer_chain FindAnalyzer_none)

theorem dispatch_walks_ancestors_witness:
  "ClassChain DerivedMeshClass = [DerivedMeshClass] @ StaticMeshClass # [ObjectClass]
   \<and> \<not> HasAnalyzer ExampleAnalyzers DerivedMeshClass
   \<and> AnalyzeSingleAsset ExampleAnalyzers (MeshAsset ''SM_Fence'' DerivedMeshClass)
        (Some ExampleSettings) []
       = ExampleAnalyzer (MeshAsset ''SM_Fence'' DerivedMeshClass) (Some NewProfile) []
   \<and> AnalyzeSingleAsset ExampleAnalyzers TextureAsset
        (Some ExampleSettings) [] = []"
proof -
  have chain: "ClassChain DerivedMeshClass = [DerivedMeshClass] @ StaticMeshClass # [ObjectClass]"
    by (simp add: DerivedMeshClass_def StaticMeshClass_def ObjectClass_def)
  have no: "\<not> HasAnalyzer ExampleAnalyzers DerivedMeshClass"
    by (simp add: HasAnalyzer_def ExampleAnalyzers_def RegisterAssetAnalyzer_def
        DerivedMeshClass_def StaticMeshClass_def)
  have reg: "ExampleAnalyzers StaticMeshClass = Some (Some ExampleAnalyzer)"
    by (simp add: ExampleAnalyzers_def RegisterAssetAnalyzer_def)
  have tex: "\<forall>d \<in> set (ClassChain TextureClass). \<not> HasAnalyzer ExampleAnalyzers d"
    by (simp add: HasAnalyzer_def ExampleAnalyzers_def RegisterAssetAnalyzer_def
        TextureClass_def StaticMeshClass_def ObjectClass_def)
  show ?thesis
    using chain no reg tex
      dispatch_walks_ancestors [where ad = "MeshAsset ''SM_Fence'' DerivedMeshClass"
        and obj = "\<lparr>GetClass = DerivedMeshClass, CastStaticMesh = Some ExampleLODMesh\<rparr>"
        and pre = "[DerivedMeshClass]" and c = StaticMeshClass and post = "[ObjectClass]"
        and M = ExampleAnalyzers and a = ExampleAnalyzer and S = ExampleSettings
        and P = NewProfile and rs = "[]"
        and ad' = "TextureAsset"
        and obj' = "\<lparr>GetClass = TextureClass, CastStaticMesh = None\<rparr>"
        and M' = ExampleAnalyzers and S' = "Some ExampleSettings" and rs' = "[]"]
    by (simp add: MeshAsset_def TextureAsset_def ExampleAsset_def ExampleSettings_def)
qed

lemma EvaluateAssets_no_cancel:
  "FinalResults (EvaluateAssets M S (\<lambda>k. False) N xs s)
     = fold (\<lambda>x r. AnalyzeSingleAsset M x S r) xs (FinalResults s)
   \<and> ProcessedCount (EvaluateAssets M S (\<lambda>k. False) N xs s)
     = ProcessedCount s + int (length xs)"
  by (induction xs arbitrary: s) simp_all

text \<open>
  Claim C4, as stated, at a valid asset whose object does not load: dispatch appends no
  result, where the claim has exactly one Error result.
\<close>

theorem load_failure_adds_no_result:
  "IsValidAssetData UnloadableAsset \<and> GetAsset UnloadableAsset = None
   \<and> AnalyzeSingleAsset ExampleAnalyzers UnloadableAsset (Some ExampleSettings) [] = []"
  by (simp add: AnalyzeSingleAsset_def UnloadableAsset_def)

text \<open>
  Claim C4, amended. For an asset whose object fails to load, dispatch appends no
  result and returns normally, and the scan goes on: the loop, when nobody cancels,
  ends with the results of the assets before and after it, and has counted every
  asset.
\<close>

theorem load_failure_is_skipped:
  "GetAsset ad = None \<longrightarrow>
     AnalyzeSingleAsset M ad S rs = rs
     \<and> FinalResults (EvaluateAssets M S (\<lambda>k. False) N (before @ ad # after) s)
         = fold (\<lambda>x r. AnalyzeSingleAsset M x S r) after
             (fold (\<lambda>x r. AnalyzeSingleAsset M x S r) before (FinalResults s))
     \<and> ProcessedCount (EvaluateAssets M S (\<lambda>k. False) N (before @ ad # after) s)
         = ProcessedCount s + int (length before) + 1 + int (length after)"
proof
  assume h: "GetAsset ad = None"
  have skip: "AnalyzeSingleAsset M ad S r = r" for r
    using h by (simp add: AnalyzeSingleAsset_def)
  show "AnalyzeSingleAsset M ad S rs = rs
     \<and> FinalResults (EvaluateAssets M S (\<lambda>k. False) N (before @ ad # after) s)
         = fold (\<lambda>x r. AnalyzeSingleAsset M x S r) after
             (fold (\<lambda>x r. AnalyzeSingleAsset M x S r) before (FinalResults s))
     \<and> ProcessedCount (EvaluateAssets M S (\<lambda>k. False) N (before @ ad # after) s)
         = ProcessedCount s + int (length before) + 1 + int (length after)"
    using EvaluateAssets_no_cancel [of M S N "before @ ad # after" s]
    by (simp add: skip)
qed

theorem load_failure_is_skipped_witness:
  "FinalResults (EvaluateAssets ExampleAnalyzers (Some ExampleSettings) (\<lambda>k. False) 3
      ([MeshAsset ''SM_A'' StaticMeshClass] @ UnloadableAsset # [MeshAsset ''SM_B'' StaticMeshClass])
      \<lparr>ProcessedCount = 0, FinalResults = [], FinalOperationSummaryMessage = ExampleTaskMessage,
       CancelPolls = 0, MessagePumps = 0\<rparr>)
     = [ExampleResult ''SM_A'', ExampleResult ''SM_B'']
   \<and> ProcessedCount (EvaluateAssets ExampleAnalyzers (Some ExampleSettings) (\<lambda>k. False) 3
      ([MeshAsset ''SM_A'' StaticMeshClass] @ UnloadableAsset # [MeshAsset ''SM_B'' StaticMeshClass])
      \<lparr>ProcessedCount = 0, FinalResults = [], FinalOperationSummaryMessage = ExampleTaskMessage,
       CancelPolls = 0, MessagePumps = 0\<rparr>) = 3"
proof -
  have h: "GetAsset UnloadableAsset = None" by (simp add: UnloadableAsset_def)
  have reg: "ExampleAnalyzers StaticMeshClass = Some (Some ExampleAnalyzer)"
    by (simp add: ExampleAnalyzers_def RegisterAssetAnalyzer_def)
  have one: "AnalyzeSingleAsset ExampleAnalyzers (MeshAsset name StaticMeshClass)
               (Some ExampleSettings) r = r @ [ExampleResult name]" for name r
    using reg
    by (simp add: AnalyzeSingleAsset_def MeshAsset_def ExampleAsset_def StaticMeshClass_def
        ExampleSettings_def ExampleAnalyzer_def ExampleResult_def)
  show ?thesis
    using h load_failure_is_skipped [of UnloadableAsset ExampleAnalyzers "Some ExampleSettings"
        "[]" 3 "[MeshAsset ''SM_A'' StaticMeshClass]" "[MeshAsset ''SM_B'' StaticMeshClass]"
        "\<lparr>ProcessedCount = 0, FinalResults = [], FinalOperationSummaryMessage = ExampleTaskMessage,
          CancelPolls = 0, MessagePumps = 0\<rparr>"]
    by (simp add: one)
qed

lemma EvaluateAssets_cancel:
  "\<forall>k < K. \<not> Cancel (CancelPolls s + k) \<Longrightarrow> Cancel (CancelPolls s + K) \<Longrightarrow> K < length xs \<Longrightarrow>
   EvaluateAssets M S Cancel N xs s =
     (EvaluateAssets M S (\<lambda>k. False) N (take K xs) s)
       \<lparr>CancelPolls := Suc (CancelPolls s + K),
        FinalOperationSummaryMessage :=
          TextFormat ''AnalysisCancelledByUser''
            [TextAsNumber (ProcessedCount s + int K), TextAsNumber N]\<rparr>"
proof (induction xs arbitrary: s K)
  case Nil
  then show ?case by simp
next
  case (Cons x xs)
  show ?case
  proof (cases K)
    case 0
    then show ?thesis using Cons.prems by simp
  next
    case (Suc K')
    let ?s' = "s\<lparr>CancelPolls := Suc (CancelPolls s),
               FinalResults := AnalyzeSingleAsset M x S (FinalResults s),
               ProcessedCount := ProcessedCount s + 1,
               MessagePumps := (if (ProcessedCount s + 1) mod 10 = 0
                                then Suc (MessagePumps s) else MessagePumps s)\<rparr>"
    have nc: "\<not> Cancel (CancelPolls s)" using Cons.prems(1) Suc by auto
    have a: "\<forall>k < K'. \<not> Cancel (CancelPolls ?s' + k)"
      using Cons.prems(1) Suc by auto
    have b: "Cancel (CancelPolls ?s' + K')" using Cons.prems(2) Suc by simp
    have c: "K' < length xs" using Cons.prems(3) Suc by simp
    show ?thesis
      using Cons.IH [OF a b c] nc Suc by (simp add: add.commute add.left_commute)
  qed
qed

text \<open>
  Claim C8. Cancelling after K of N assets stops the loop before asset K+1, keeps the
  results of the first K assets, and reports a partial-completion message naming K of N.
  Evaluated for three selected assets with the cancel request seen at the third poll:
  the results of the first two assets are reported and the third is not evaluated; the
  message "cancelled, processed 2 of 3" is stored in the local summary variable, and
  the status shown is the completion text with 3 analyzed assets and 2 issues. The loop
  itself behaves as claimed for every K (\<open>EvaluateAssets_cancel\<close>).
\<close>

theorem cancelled_scan_reports_complete:
  "map_option (\<lambda>r. map ResAsset (ReportResults r))
      (OnAssetScanPhaseComplete ExampleWindow SelectedAssets []
         [MeshAsset ''SM_A'' StaticMeshClass, MeshAsset ''SM_B'' StaticMeshClass,
          MeshAsset ''SM_C'' StaticMeshClass] ExampleTaskMessage)
     = Some [''SM_A'', ''SM_B'']
   \<and> map_option StatusText
      (OnAssetScanPhaseComplete ExampleWindow SelectedAssets []
         [MeshAsset ''SM_A'' StaticMeshClass, MeshAsset ''SM_B'' StaticMeshClass,
          MeshAsset ''SM_C'' StaticMeshClass] ExampleTaskMessage)
     = Some (TextFormat ''AnalysisFullyCompleteWithDetailsFmt''
               [ExampleTaskMessage, TextAsNumber 3, TextAsNumber 2])
   \<and> map_option (\<lambda>r. map_option FinalOperationSummaryMessage (LocalsAtReturn r))
      (OnAssetScanPhaseComplete ExampleWindow SelectedAssets []
         [MeshAsset ''SM_A'' StaticMeshClass, MeshAsset ''SM_B'' StaticMeshClass,
          MeshAsset ''SM_C'' StaticMeshClass] ExampleTaskMessage)
     = Some (Some (TextFormat ''AnalysisCancelledByUser'' [TextAsNumber 2, TextAsNumber 3]))
   \<and> map_option (\<lambda>r. map_option ProcessedCount (LocalsAtReturn r))
      (OnAssetScanPhaseComplete ExampleWindow SelectedAssets []
         [MeshAsset ''SM_A'' StaticMeshClass, MeshAsset ''SM_B'' StaticMeshClass,
          MeshAsset ''SM_C'' StaticMeshClass] ExampleTaskMessage)
     = Some (Some 2)"
proof -
  have reg: "ExampleAnalyzers StaticMeshClass = Some (Some ExampleAnalyzer)"
    by (simp add: ExampleAnalyzers_def RegisterAssetAnalyzer_def)
  have one: "AnalyzeSingleAsset ExampleAnalyzers (MeshAsset name StaticMeshClass)
               (Some ExampleSettings) r = r @ [ExampleResult name]" for name r
    using reg
    by (simp add: AnalyzeSingleAsset_def MeshAsset_def ExampleAsset_def StaticMeshClass_def
        ExampleSettings_def ExampleAnalyzer_def ExampleResult_def)
  show ?thesis
    by (simp add: OnAssetScanPhaseComplete_def ExampleWindow_def one ExampleResult_def Let_def)
qed

end
